theory Spec2Isabelle
  imports Main
begin

section \<open>Strings\<close>

text \<open>
  The script reads three strings of the navigator and only ever lower-cases, upper-cases
  and searches them. User-agent and platform strings are ASCII, so \<open>toLowerCase\<close> and
  \<open>toUpperCase\<close> are modelled on the ASCII letters and leave every other byte alone.
\<close>

definition toLowerCase :: "string \<Rightarrow> string" where
  "toLowerCase s =
     map (\<lambda>c. if (65::nat) \<le> of_char c \<and> of_char c \<le> (90::nat)
              then char_of (of_char c + (32::nat)) else c) s"

definition toUpperCase :: "string \<Rightarrow> string" where
  "toUpperCase s =
     map (\<lambda>c. if (97::nat) \<le> of_char c \<and> of_char c \<le> (122::nat)
              then char_of (of_char c - (32::nat)) else c) s"

fun startsWith :: "string \<Rightarrow> string \<Rightarrow> bool" where
  "startsWith s [] = True"
| "startsWith [] (y # ys) = False"
| "startsWith (x # xs) (y # ys) = (x = y \<and> startsWith xs ys)"

text \<open>\<open>hasSubstring s t\<close> is \<^verbatim>\<open>s.indexOf(t) >= 0\<close>, and \<^verbatim>\<open>/t/.test(s)\<close> for a literal \<open>t\<close>.\<close>

fun hasSubstring :: "string \<Rightarrow> string \<Rightarrow> bool" where
  "hasSubstring [] t = startsWith [] t"
| "hasSubstring (x # xs) t = (startsWith (x # xs) t \<or> hasSubstring xs t)"

text \<open>The regular expression \<^verbatim>\<open>/iphone|ipad|ipod/\<close> of lines 89 and 176.\<close>

definition test_iphone_ipad_ipod :: "string \<Rightarrow> bool" where
  "test_iphone_ipad_ipod s =
     (hasSubstring s ''iphone'' \<or> hasSubstring s ''ipad'' \<or> hasSubstring s ''ipod'')"

section \<open>The environment the script queries\<close>

text \<open>
  \<open>standalone\<close> is \<^verbatim>\<open>window.navigator.standalone\<close>: \<open>None\<close> where the browser has no
  such property, \<open>Some b\<close> where it reports the boolean \<open>b\<close>. \<open>displayModeStandalone\<close> is
  \<^verbatim>\<open>window.matchMedia('(display-mode: standalone)').matches\<close>.
\<close>

record env =
  userAgent :: string
  platform :: string
  maxTouchPoints :: nat
  standalone :: "bool option"
  displayModeStandalone :: bool

section \<open>The document and the controller state\<close>

datatype prompt_ref = Undefined | Null | Event nat

datatype outcome = Accepted | Dismissed

datatype task = CreateInstallButton | AnimateIn nat | RemoveModal nat

datatype instructions = AddToDock | AddToHomeScreen

text \<open>
  Elements made by the script carry a node number, their identity: the closures of the
  click handlers hold the element itself (\<^verbatim>\<open>btn\<close>, \<^verbatim>\<open>modal\<close>), not its id.
\<close>

record button =
  btn_node :: nat
  btn_opacity :: string
  btn_transform :: string

text \<open>
  \<open>closeListeners\<close> are the click listeners on the dialog's \<^verbatim>\<open>closeIosMsg\<close> button,
  each given by the node of the \<^verbatim>\<open>modal\<close> its closure holds.
\<close>

record modal =
  modal_node :: nat
  modal_title :: string
  modal_text :: instructions
  modal_opacity :: string
  closeListeners :: "nat list"

text \<open>
  \<^item> \<open>deferredPrompt\<close>: the module variable of line 20, an event named by a number;
  \<^item> \<open>container\<close>: \<open>None\<close> when the document has no \<^verbatim>\<open>#taskbarContainer\<close>, otherwise the
    install buttons among its children, in document order. The host page's own elements
    are taken not to use the ids \<^verbatim>\<open>pwaInstallBtn\<close> and \<^verbatim>\<open>closeIosMsg\<close>;
  \<^item> \<open>body\<close>: the dialogs appended to \<^verbatim>\<open>document.body\<close>, in document order;
  \<^item> \<open>timers\<close>: the pending \<^verbatim>\<open>setTimeout\<close> calls, delay and callback;
  \<^item> \<open>awaiting\<close>: the click handlers suspended at line 55, each with the event whose
    \<^verbatim>\<open>userChoice\<close> it awaits and the button of its closure;
  \<^item> \<open>resolved\<close>: the events whose \<^verbatim>\<open>userChoice\<close> promise has resolved, with the outcome;
  \<^item> \<open>prevented\<close>, \<open>prompted\<close>: the calls of \<^verbatim>\<open>preventDefault()\<close> and \<^verbatim>\<open>prompt()\<close>;
  \<^item> \<open>console\<close>: the lines written by \<^verbatim>\<open>console.log\<close>;
  \<^item> \<open>next_node\<close>: the number the next created element gets.
\<close>

record state =
  deferredPrompt :: prompt_ref
  container :: "button list option"
  body :: "modal list"
  timers :: "(nat \<times> task) list"
  awaiting :: "(nat \<times> nat) list"
  resolved :: "(nat \<times> outcome) list"
  prevented :: "nat list"
  prompted :: "nat list"
  console :: "string list"
  next_node :: nat

text \<open>The state when the script starts; \<open>c\<close> tells whether the container is there yet.\<close>

definition initial :: "bool \<Rightarrow> state" where
  "initial c =
     \<lparr>deferredPrompt = Undefined, container = (if c then Some [] else None), body = [],
      timers = [], awaiting = [], resolved = [], prevented = [], prompted = [],
      console = [], next_node = 0\<rparr>"

section \<open>The install button (lines 24 to 73)\<close>

text \<open>\<^verbatim>\<open>document.getElementById(installBtnId)\<close>: the first such element of the document.\<close>

definition getInstallBtn :: "state \<Rightarrow> button option" where
  "getInstallBtn s =
     (case container s of
        None \<Rightarrow> None
      | Some bs \<Rightarrow> (case bs of [] \<Rightarrow> None | b # _ \<Rightarrow> Some b))"

definition new_button :: "nat \<Rightarrow> button" where
  "new_button n = \<lparr>btn_node = n, btn_opacity = ''0'', btn_transform = ''translateY(20px)''\<rparr>"

definition createInstallButton :: "state \<Rightarrow> state" where
  "createInstallButton s =
     (case container s of
        None \<Rightarrow> s
      | Some bs \<Rightarrow>
          (case getInstallBtn s of
             Some b \<Rightarrow> s
           | None \<Rightarrow>
               s\<lparr>container := Some (bs @ [new_button (next_node s)]),
                 timers := timers s @ [(100, AnimateIn (next_node s))],
                 next_node := Suc (next_node s)\<rparr>))"

text \<open>\<^verbatim>\<open>btn.remove()\<close>: the element leaves its parent; nothing happens if it has none.\<close>

definition remove_button :: "nat \<Rightarrow> state \<Rightarrow> state" where
  "remove_button n s =
     s\<lparr>container := map_option (filter (\<lambda>b. btn_node b \<noteq> n)) (container s)\<rparr>"

text \<open>The callback of line 69; the style of a detached button is not observable.\<close>

definition animateIn :: "nat \<Rightarrow> state \<Rightarrow> state" where
  "animateIn n s =
     s\<lparr>container :=
         map_option
           (map (\<lambda>b. if btn_node b = n
                      then b\<lparr>btn_opacity := ''1'', btn_transform := ''translateY(0)''\<rparr>
                      else b))
           (container s)\<rparr>"

section \<open>Platform detection and the instructions dialog (lines 87 to 157)\<close>

definition detect_isIos :: "env \<Rightarrow> bool" where
  "detect_isIos e = test_iphone_ipad_ipod (toLowerCase (userAgent e))"

definition detect_isIpadOS :: "env \<Rightarrow> bool" where
  "detect_isIpadOS e = (platform e = ''MacIntel'' \<and> maxTouchPoints e > 1)"

definition detect_isMac :: "env \<Rightarrow> bool" where
  "detect_isMac e =
     (hasSubstring (toUpperCase (platform e)) ''MAC'' \<and> \<not> detect_isIos e \<and> \<not> detect_isIpadOS e)"

text \<open>\<^verbatim>\<open>('standalone' in window.navigator) && (window.navigator.standalone)\<close>\<close>

definition isInStandaloneMode :: "env \<Rightarrow> bool" where
  "isInStandaloneMode e = (case standalone e of None \<Rightarrow> False | Some b \<Rightarrow> b)"

text \<open>
  The new dialog goes to the end of the body, and the listener goes to what
  \<^verbatim>\<open>document.getElementById('closeIosMsg')\<close> returns: the close button of the first dialog
  of the document, which is the new one only when no other dialog is there.
\<close>

definition showInstallInstructions :: "string \<Rightarrow> state \<Rightarrow> state" where
  "showInstallInstructions deviceType s =
     (let m = \<lparr>modal_node = next_node s,
               modal_title = ''INSTALL ON '' @ toUpperCase deviceType,
               modal_text = (if deviceType = ''Mac'' then AddToDock else AddToHomeScreen),
               modal_opacity = '''',
               closeListeners = []\<rparr>
      in s\<lparr>body :=
             (case body s of
                [] \<Rightarrow> [m\<lparr>closeListeners := [next_node s]\<rparr>]
              | x # xs \<Rightarrow> x\<lparr>closeListeners := closeListeners x @ [next_node s]\<rparr> # xs @ [m]),
           next_node := Suc (next_node s)\<rparr>)"

definition detectAndShowInstructions :: "env \<Rightarrow> state \<Rightarrow> state" where
  "detectAndShowInstructions e s =
     (if (detect_isIos e \<or> detect_isIpadOS e) \<and> \<not> isInStandaloneMode e
      then showInstallInstructions (if detect_isIpadOS e then ''iPad'' else ''iOS'') s
      else if detect_isMac e \<and> \<not> isInStandaloneMode e
      then showInstallInstructions ''Mac'' s
      else s)"

text \<open>One listener of a close button (lines 153 to 156), for the dialog \<open>t\<close> it holds.\<close>

definition closeListener :: "state \<Rightarrow> nat \<Rightarrow> state" where
  "closeListener s t =
     s\<lparr>body := map (\<lambda>x. if modal_node x = t then x\<lparr>modal_opacity := ''0''\<rparr> else x) (body s),
       timers := timers s @ [(300, RemoveModal t)]\<rparr>"

text \<open>A click on the close button of the dialog \<open>k\<close> runs its listeners in order.\<close>

definition on_closeClick :: "nat \<Rightarrow> state \<Rightarrow> state" where
  "on_closeClick k s =
     (case find (\<lambda>x. modal_node x = k) (body s) of
        None \<Rightarrow> s
      | Some x \<Rightarrow> foldl closeListener s (closeListeners x))"

definition remove_modal :: "nat \<Rightarrow> state \<Rightarrow> state" where
  "remove_modal t s = s\<lparr>body := filter (\<lambda>x. modal_node x \<noteq> t) (body s)\<rparr>"

section \<open>The handlers\<close>

fun outcome_string :: "outcome \<Rightarrow> string" where
  "outcome_string Accepted = ''accepted''"
| "outcome_string Dismissed = ''dismissed''"

text \<open>Lines 56 to 58: what the click handler of button \<open>n\<close> does once the outcome is in.\<close>

definition resume :: "outcome \<Rightarrow> state \<Rightarrow> nat \<Rightarrow> state" where
  "resume oc s n =
     remove_button n
       (s\<lparr>console := console s @ [''User response to the install prompt: '' @ outcome_string oc],
          deferredPrompt := Null\<rparr>)"

text \<open>
  The click handler of lines 50 to 63, for a click on the button \<open>n\<close> of the document.
  A handle is truthy, \<open>undefined\<close> and \<open>null\<close> are not. Awaiting a promise that has
  resolved already continues at once.
\<close>

definition on_click :: "env \<Rightarrow> nat \<Rightarrow> state \<Rightarrow> state" where
  "on_click e n s =
     (case container s of
        None \<Rightarrow> s
      | Some bs \<Rightarrow>
          if n \<in> set (map btn_node bs) then
            (case deferredPrompt s of
               Event h \<Rightarrow>
                 (case map_of (resolved s) h of
                    Some oc \<Rightarrow> resume oc (s\<lparr>prompted := prompted s @ [h]\<rparr>) n
                  | None \<Rightarrow>
                      s\<lparr>prompted := prompted s @ [h], awaiting := awaiting s @ [(h, n)]\<rparr>)
             | Undefined \<Rightarrow> detectAndShowInstructions e s
             | Null \<Rightarrow> detectAndShowInstructions e s)
          else s)"

text \<open>
  The platform resolves the \<^verbatim>\<open>userChoice\<close> of event \<open>h\<close>, once, and only after
  \<^verbatim>\<open>prompt()\<close> was called on it; every handler awaiting it continues, in order.
\<close>

definition on_userChoice :: "nat \<Rightarrow> outcome \<Rightarrow> state \<Rightarrow> state" where
  "on_userChoice h oc s =
     (if h \<in> set (prompted s) \<and> map_of (resolved s) h = None
      then foldl (resume oc)
             (s\<lparr>resolved := (h, oc) # resolved s,
                awaiting := filter (\<lambda>p. fst p \<noteq> h) (awaiting s)\<rparr>)
             (map snd (filter (\<lambda>p. fst p = h) (awaiting s)))
      else s)"

text \<open>The listener of lines 76 to 84.\<close>

definition on_beforeinstallprompt :: "nat \<Rightarrow> state \<Rightarrow> state" where
  "on_beforeinstallprompt h s =
     createInstallButton
       (s\<lparr>prevented := prevented s @ [h],
          deferredPrompt := Event h,
          console := console s @ [''PWA Install Triggered'']\<rparr>)"

text \<open>The listener of lines 160 to 164.\<close>

definition on_appinstalled :: "state \<Rightarrow> state" where
  "on_appinstalled s =
     (let s' = s\<lparr>console := console s @ [''PWA was installed'']\<rparr>
      in case getInstallBtn s' of
           None \<Rightarrow> s'
         | Some b \<Rightarrow> remove_button (btn_node b) s')"

fun run_task :: "task \<Rightarrow> state \<Rightarrow> state" where
  "run_task CreateInstallButton s = createInstallButton s"
| "run_task (AnimateIn n) s = animateIn n s"
| "run_task (RemoveModal t) s = remove_modal t s"

text \<open>The \<open>i\<close>-th pending timer fires: it leaves the list and its callback runs.\<close>

definition on_timer :: "nat \<Rightarrow> state \<Rightarrow> state" where
  "on_timer i s =
     (if i < length (timers s)
      then run_task (snd (timers s ! i)) (s\<lparr>timers := take i (timers s) @ drop (Suc i) (timers s)\<rparr>)
      else s)"

section \<open>Start of the script (lines 171 to 185)\<close>

definition isStandalone :: "env \<Rightarrow> bool" where
  "isStandalone e = (displayModeStandalone e \<or> standalone e = Some True)"

definition startup_isIpadOS :: "env \<Rightarrow> bool" where
  "startup_isIpadOS e = (platform e = ''MacIntel'' \<and> maxTouchPoints e > 1)"

definition startup_isIos :: "env \<Rightarrow> bool" where
  "startup_isIos e = (test_iphone_ipad_ipod (toLowerCase (userAgent e)) \<or> startup_isIpadOS e)"

definition startup_isMac :: "env \<Rightarrow> bool" where
  "startup_isMac e = hasSubstring (toUpperCase (platform e)) ''MAC''"

definition startup :: "env \<Rightarrow> bool \<Rightarrow> state" where
  "startup e c =
     (if \<not> isStandalone e
      then (if startup_isIos e \<or> startup_isMac e
            then (initial c)\<lparr>timers := timers (initial c) @ [(1000, CreateInstallButton)]\<rparr>
            else initial c)
      else initial c)"

section \<open>Events and the states the script can be in\<close>

text \<open>
  \<open>ContainerInserted\<close> is the host page adding \<^verbatim>\<open>#taskbarContainer\<close> after the script
  ran, the late DOM readiness the comment of line 182 speaks of. An event that cannot
  happen in a state (a click on an element that is not in the document, a timer that is
  not pending, a second resolution of a promise) leaves the state as it is.
\<close>

datatype event =
    BeforeInstallPrompt nat
  | AppInstalled
  | ClickInstall nat
  | UserChoice nat outcome
  | TimerFires nat
  | ClickClose nat
  | ContainerInserted

fun step :: "env \<Rightarrow> state \<Rightarrow> event \<Rightarrow> state" where
  "step e s (BeforeInstallPrompt h) = on_beforeinstallprompt h s"
| "step e s AppInstalled = on_appinstalled s"
| "step e s (ClickInstall n) = on_click e n s"
| "step e s (UserChoice h oc) = on_userChoice h oc s"
| "step e s (TimerFires i) = on_timer i s"
| "step e s (ClickClose k) = on_closeClick k s"
| "step e s ContainerInserted =
     (case container s of None \<Rightarrow> s\<lparr>container := Some []\<rparr> | Some bs \<Rightarrow> s)"

definition run :: "env \<Rightarrow> state \<Rightarrow> event list \<Rightarrow> state" where
  "run e s evs = foldl (step e) s evs"

inductive reachable :: "env \<Rightarrow> state \<Rightarrow> bool" for e :: env where
  reachable_start: "reachable e (startup e c)"
| reachable_step: "reachable e s \<Longrightarrow> reachable e (step e s ev)"

text \<open>
  What every reachable state satisfies: the document has at most one install button, a
  stored handle came with a signal, and a promise is awaited or resolved only after
  \<^verbatim>\<open>prompt()\<close> was called on its event.
\<close>

definition state_inv :: "state \<Rightarrow> bool" where
  "state_inv s =
     ((\<forall>bs. container s = Some bs \<longrightarrow> length bs \<le> 1) \<and>
      (\<forall>h. deferredPrompt s = Event h \<longrightarrow> h \<in> set (prevented s)) \<and>
      fst ` set (awaiting s) \<subseteq> set (prompted s) \<and>
      set (prompted s) \<subseteq> set (prevented s) \<and>
      fst ` set (resolved s) \<subseteq> set (prompted s))"

section \<open>Sample environments\<close>

definition android_env :: env where
  "android_env =
     \<lparr>userAgent = ''Mozilla/5.0 (Linux; Android 14; Pixel 8) Chrome/126.0 Mobile Safari/537.36'',
      platform = ''Linux armv81'', maxTouchPoints = 5, standalone = None,
      displayModeStandalone = False\<rparr>"

definition iphone_env :: env where
  "iphone_env =
     \<lparr>userAgent = ''Mozilla/5.0 (iPhone; CPU iPhone OS 17_0 like Mac OS X) Safari/604.1'',
      platform = ''iPhone'', maxTouchPoints = 5, standalone = Some False,
      displayModeStandalone = False\<rparr>"

definition iphone_app_env :: env where
  "iphone_app_env = iphone_env\<lparr>standalone := Some True\<rparr>"

definition ipad_env :: env where
  "ipad_env =
     \<lparr>userAgent = ''Mozilla/5.0 (Macintosh; Intel Mac OS X 10_15_7) Safari/605.1.15'',
      platform = ''MacIntel'', maxTouchPoints = 5, standalone = Some False,
      displayModeStandalone = False\<rparr>"

text \<open>A desktop Mac whose window is in standalone display mode; the browser has no
  \<^verbatim>\<open>navigator.standalone\<close>.\<close>

definition mac_app_env :: env where
  "mac_app_env =
     \<lparr>userAgent = ''Mozilla/5.0 (Macintosh; Intel Mac OS X 10_15_7) Safari/605.1.15'',
      platform = ''MacIntel'', maxTouchPoints = 0, standalone = None,
      displayModeStandalone = True\<rparr>"

section \<open>The invariant holds in every reachable state\<close>

lemma inv_startup: "state_inv (startup e c)"
  by (simp add: startup_def state_inv_def initial_def)

lemma inv_createInstallButton: "state_inv s \<Longrightarrow> state_inv (createInstallButton s)"
  by (auto simp: state_inv_def createInstallButton_def getInstallBtn_def
        split: option.splits list.splits)

lemma inv_remove_button: "state_inv s \<Longrightarrow> state_inv (remove_button n s)"
  by (auto simp: state_inv_def remove_button_def split: option.splits
        intro: le_trans [OF length_filter_le])

lemma inv_resume: "state_inv s \<Longrightarrow> state_inv (resume oc s n)"
  unfolding resume_def by (rule inv_remove_button) (auto simp: state_inv_def)

lemma inv_foldl_resume: "state_inv s \<Longrightarrow> state_inv (foldl (resume oc) s ns)"
  by (induction ns arbitrary: s) (simp_all add: inv_resume)

lemma inv_animateIn: "state_inv s \<Longrightarrow> state_inv (animateIn n s)"
  by (auto simp: state_inv_def animateIn_def split: option.splits)

lemma inv_remove_modal: "state_inv s \<Longrightarrow> state_inv (remove_modal t s)"
  by (simp add: state_inv_def remove_modal_def)

lemma inv_showInstallInstructions: "state_inv s \<Longrightarrow> state_inv (showInstallInstructions d s)"
  by (simp add: state_inv_def showInstallInstructions_def Let_def)

lemma inv_detectAndShowInstructions:
  "state_inv s \<Longrightarrow> state_inv (detectAndShowInstructions e s)"
  by (simp add: detectAndShowInstructions_def inv_showInstallInstructions)

lemma inv_closeListener: "state_inv s \<Longrightarrow> state_inv (closeListener s t)"
  by (simp add: state_inv_def closeListener_def)

lemma inv_foldl_closeListener: "state_inv s \<Longrightarrow> state_inv (foldl closeListener s ts)"
  by (induction ts arbitrary: s) (simp_all add: inv_closeListener)

lemma inv_on_closeClick: "state_inv s \<Longrightarrow> state_inv (on_closeClick k s)"
  by (simp add: on_closeClick_def inv_foldl_closeListener split: option.splits)

lemma inv_on_beforeinstallprompt: "state_inv s \<Longrightarrow> state_inv (on_beforeinstallprompt h s)"
  unfolding on_beforeinstallprompt_def
  by (rule inv_createInstallButton) (auto simp: state_inv_def)

lemma inv_on_appinstalled: "state_inv s \<Longrightarrow> state_inv (on_appinstalled s)"
proof -
  assume a: "state_inv s"
  then have b: "state_inv (s\<lparr>console := console s @ [''PWA was installed'']\<rparr>)"
    by (simp add: state_inv_def)
  show ?thesis
    unfolding on_appinstalled_def Let_def
    by (simp add: b inv_remove_button split: option.splits)
qed

lemma inv_on_click: "state_inv s \<Longrightarrow> state_inv (on_click e n s)"
proof -
  assume a: "state_inv s"
  have p: "\<And>h. deferredPrompt s = Event h \<Longrightarrow> state_inv (s\<lparr>prompted := prompted s @ [h]\<rparr>)"
    using a by (auto simp: state_inv_def)
  have q: "\<And>h. deferredPrompt s = Event h \<Longrightarrow>
             state_inv (s\<lparr>prompted := prompted s @ [h], awaiting := awaiting s @ [(h, n)]\<rparr>)"
    using a by (auto simp: state_inv_def)
  show ?thesis
    unfolding on_click_def
    by (simp add: a p q inv_resume inv_detectAndShowInstructions
          split: option.splits prompt_ref.splits)
qed

lemma inv_on_userChoice: "state_inv s \<Longrightarrow> state_inv (on_userChoice h oc s)"
proof -
  assume a: "state_inv s"
  have "h \<in> set (prompted s) \<Longrightarrow>
        state_inv (s\<lparr>resolved := (h, oc) # resolved s,
                     awaiting := filter (\<lambda>p. fst p \<noteq> h) (awaiting s)\<rparr>)"
    using a by (auto simp: state_inv_def)
  then show ?thesis
    unfolding on_userChoice_def by (simp add: a inv_foldl_resume)
qed

lemma inv_run_task: "state_inv s \<Longrightarrow> state_inv (run_task t s)"
  by (cases t) (simp_all add: inv_createInstallButton inv_animateIn inv_remove_modal)

lemma inv_on_timer: "state_inv s \<Longrightarrow> state_inv (on_timer i s)"
proof -
  assume a: "state_inv s"
  then have "state_inv (s\<lparr>timers := take i (timers s) @ drop (Suc i) (timers s)\<rparr>)"
    by (simp add: state_inv_def)
  then show ?thesis
    unfolding on_timer_def by (simp add: a inv_run_task)
qed

lemma inv_step: "state_inv s \<Longrightarrow> state_inv (step e s ev)"
proof (cases ev)
  case ContainerInserted
  assume "state_inv s"
  then show ?thesis using ContainerInserted
    by (auto simp: state_inv_def split: option.splits)
qed (simp_all add: inv_on_beforeinstallprompt inv_on_appinstalled inv_on_click
       inv_on_userChoice inv_on_timer inv_on_closeClick)

lemma reachable_inv: "reachable e s \<Longrightarrow> state_inv s"
  by (induction rule: reachable.induct) (simp_all add: inv_startup inv_step)

section \<open>Facts used by several properties\<close>

lemma filter_fst_fresh:
  "h \<notin> fst ` set xs \<Longrightarrow>
     filter (\<lambda>p. fst p = h) xs = [] \<and> filter (\<lambda>p. fst p \<noteq> h) xs = xs"
  by (induction xs) auto

lemma map_of_fresh: "h \<notin> fst ` set xs \<Longrightarrow> map_of xs h = None"
  by (simp add: map_of_eq_None_iff)

lemma startup_android: "startup android_env True = initial True"
  by code_simp

lemma armed_android:
  "run android_env (startup android_env True) [BeforeInstallPrompt 0] =
     (initial True)\<lparr>deferredPrompt := Event 0, container := Some [new_button 0],
        timers := [(100, AnimateIn 0)], prevented := [0],
        console := [''PWA Install Triggered''], next_node := 1\<rparr>"
  by code_simp

lemma clicked_android:
  "run android_env (startup android_env True) [BeforeInstallPrompt 0, ClickInstall 0] =
     (initial True)\<lparr>deferredPrompt := Event 0, container := Some [new_button 0],
        timers := [(100, AnimateIn 0)], awaiting := [(0, 0)], prevented := [0], prompted := [0],
        console := [''PWA Install Triggered''], next_node := 1\<rparr>"
  by code_simp

lemma iphone_ua: "hasSubstring (toLowerCase (userAgent iphone_env)) ''iphone''"
  by code_simp

lemma MacIntel_upper: "hasSubstring (toUpperCase ''MacIntel'') ''MAC''"
  by code_simp

section \<open>The native install flow\<close>

text \<open>
  Claim C1. Take any reachable state whose document has the container, and a "can install"
  signal with a handle \<open>h\<close> not delivered before. After the signal the handle is stored
  and the document has exactly one install button \<open>b\<close>. A click on \<open>b\<close> calls
  \<^verbatim>\<open>prompt()\<close> on \<open>h\<close> once and suspends one handler; handle and button stay. When the
  outcome arrives, accepted or dismissed alike, that one handler continues: it logs one
  line, the stored handle becomes \<open>null\<close> and the button leaves the document.
\<close>

theorem install_flow_clears_handle_and_button:
  assumes r: "reachable e s" and c: "container s \<noteq> None" and f: "h \<notin> set (prevented s)"
  shows "\<exists>b. getInstallBtn (run e s [BeforeInstallPrompt h]) = Some b \<and>
     (let s1 = run e s [BeforeInstallPrompt h];
          s2 = run e s [BeforeInstallPrompt h, ClickInstall (btn_node b)];
          s3 = run e s [BeforeInstallPrompt h, ClickInstall (btn_node b), UserChoice h oc]
      in deferredPrompt s1 = Event h \<and> container s1 = Some [b] \<and>
         deferredPrompt s2 = Event h \<and> container s2 = Some [b] \<and>
         prompted s2 = prompted s @ [h] \<and>
         awaiting s2 = awaiting s @ [(h, btn_node b)] \<and>
         deferredPrompt s3 = Null \<and> container s3 = Some [] \<and> awaiting s3 = awaiting s \<and>
         console s3 =
           console s2 @ [''User response to the install prompt: '' @ outcome_string oc])"
proof -
  have i: "state_inv s" using r by (rule reachable_inv)
  from c obtain bs where bs: "container s = Some bs" by auto
  with i have len: "length bs \<le> 1" by (simp add: state_inv_def)
  from i f have np: "h \<notin> set (prompted s)" by (auto simp: state_inv_def)
  with i have na: "h \<notin> fst ` set (awaiting s)" and nr: "h \<notin> fst ` set (resolved s)"
    by (auto simp: state_inv_def)
  note fa = filter_fst_fresh [OF na]
  note mr = map_of_fresh [OF nr]
  show ?thesis
  proof (cases bs)
    case Nil
    show ?thesis
      apply (rule exI [of _ "new_button (next_node s)"])
      using bs Nil fa mr
      by (simp add: run_def on_beforeinstallprompt_def createInstallButton_def getInstallBtn_def
            on_click_def on_userChoice_def resume_def remove_button_def new_button_def Let_def)
  next
    case (Cons b0 rest)
    with len have rest: "rest = []" by simp
    show ?thesis
      apply (rule exI [of _ b0])
      using bs Cons rest fa mr
      by (simp add: run_def on_beforeinstallprompt_def createInstallButton_def getInstallBtn_def
            on_click_def on_userChoice_def resume_def remove_button_def Let_def)
  qed
qed

theorem install_flow_clears_handle_and_button_witness:
  "reachable android_env (startup android_env True) \<and>
   container (startup android_env True) \<noteq> None \<and>
   0 \<notin> set (prevented (startup android_env True)) \<and>
   (\<exists>b. getInstallBtn (run android_env (startup android_env True) [BeforeInstallPrompt 0]) = Some b \<and>
     (let s1 = run android_env (startup android_env True) [BeforeInstallPrompt 0];
          s2 = run android_env (startup android_env True)
                 [BeforeInstallPrompt 0, ClickInstall (btn_node b)];
          s3 = run android_env (startup android_env True)
                 [BeforeInstallPrompt 0, ClickInstall (btn_node b), UserChoice 0 Accepted]
      in deferredPrompt s1 = Event 0 \<and> container s1 = Some [b] \<and>
         deferredPrompt s2 = Event 0 \<and> container s2 = Some [b] \<and>
         prompted s2 = prompted (startup android_env True) @ [0] \<and>
         awaiting s2 = awaiting (startup android_env True) @ [(0, btn_node b)] \<and>
         deferredPrompt s3 = Null \<and> container s3 = Some [] \<and>
         awaiting s3 = awaiting (startup android_env True) \<and>
         console s3 =
           console s2 @ [''User response to the install prompt: '' @ outcome_string Accepted]))"
proof -
  have h1: "reachable android_env (startup android_env True)" by (rule reachable_start)
  have h2: "container (startup android_env True) \<noteq> None"
    by (simp add: startup_android initial_def)
  have h3: "0 \<notin> set (prevented (startup android_env True))"
    by (simp add: startup_android initial_def)
  from install_flow_clears_handle_and_button [OF h1 h2 h3, of Accepted] h1 h2 h3
  show ?thesis by blast
qed

text \<open>
  Claim C10. In a reachable state that holds a handle and shows the install button \<open>b\<close>,
  a second "can install" signal with handle \<open>h2\<close> calls \<^verbatim>\<open>preventDefault()\<close> on it,
  stores \<open>h2\<close> in place of the old handle and logs one line; the call of
  \<open>createInstallButton\<close> changes nothing, so \<open>b\<close> stays the only button.
\<close>

theorem second_signal_replaces_handle:
  assumes r: "reachable e s" and a: "deferredPrompt s = Event h1"
    and g: "getInstallBtn s = Some b"
  shows "step e s (BeforeInstallPrompt h2) =
           s\<lparr>prevented := prevented s @ [h2], deferredPrompt := Event h2,
             console := console s @ [''PWA Install Triggered'']\<rparr> \<and>
         deferredPrompt (step e s (BeforeInstallPrompt h2)) = Event h2 \<and>
         prevented (step e s (BeforeInstallPrompt h2)) = prevented s @ [h2] \<and>
         container (step e s (BeforeInstallPrompt h2)) = Some [b]"
proof -
  have i: "state_inv s" using r by (rule reachable_inv)
  from g obtain bs where bs: "container s = Some (b # bs)"
    by (auto simp: getInstallBtn_def split: option.splits list.splits)
  with i have "bs = []" by (simp add: state_inv_def)
  with bs show ?thesis
    by (simp add: on_beforeinstallprompt_def createInstallButton_def getInstallBtn_def)
qed

theorem second_signal_replaces_handle_witness:
  "reachable android_env (run android_env (startup android_env True) [BeforeInstallPrompt 0]) \<and>
   deferredPrompt (run android_env (startup android_env True) [BeforeInstallPrompt 0]) = Event 0 \<and>
   getInstallBtn (run android_env (startup android_env True) [BeforeInstallPrompt 0]) =
     Some (new_button 0) \<and>
   deferredPrompt
     (step android_env (run android_env (startup android_env True) [BeforeInstallPrompt 0])
        (BeforeInstallPrompt 1)) = Event 1 \<and>
   container
     (step android_env (run android_env (startup android_env True) [BeforeInstallPrompt 0])
        (BeforeInstallPrompt 1)) = Some [new_button 0]"
proof -
  let ?s = "run android_env (startup android_env True) [BeforeInstallPrompt 0]"
  have h1: "reachable android_env ?s"
    unfolding run_def foldl.simps by (rule reachable_step) (rule reachable_start)
  have h2: "deferredPrompt ?s = Event 0"
    by (simp add: armed_android)
  have h3: "getInstallBtn ?s = Some (new_button 0)"
    by (simp add: armed_android getInstallBtn_def)
  from second_signal_replaces_handle [OF h1 h2 h3, of 1] h1 h2 h3 show ?thesis by blast
qed

section \<open>The "installed" signal\<close>

lemma deferredPrompt_foldl_resume:
  "deferredPrompt (foldl (resume oc) s ns) = (if ns = [] then deferredPrompt s else Null)"
proof (induction ns arbitrary: s)
  case Nil
  show ?case by simp
next
  case (Cons n ns)
  have "deferredPrompt (resume oc s n) = Null"
    by (simp add: resume_def remove_button_def)
  with Cons show ?case by simp
qed

text \<open>
  Claim C3, as amended. The stored handle is cleared when it is consumed: once the
  outcome of a prompt some click handler awaits arrives, \<open>deferredPrompt\<close> is \<open>null\<close>.
  The \<^verbatim>\<open>appinstalled\<close> listener leaves \<open>deferredPrompt\<close> as it was.
\<close>

theorem appinstalled_keeps_handle:
  "deferredPrompt (step e s AppInstalled) = deferredPrompt s \<and>
   (h \<in> fst ` set (awaiting s) \<and> map_of (resolved s) h = None \<and> h \<in> set (prompted s) \<longrightarrow>
      deferredPrompt (step e s (UserChoice h oc)) = Null)"
proof -
  have a: "deferredPrompt (step e s AppInstalled) = deferredPrompt s"
    by (simp add: on_appinstalled_def Let_def remove_button_def split: option.splits)
  have b: "h \<in> fst ` set (awaiting s) \<Longrightarrow> filter (\<lambda>p. fst p = h) (awaiting s) \<noteq> []"
    by (auto simp: filter_empty_conv)
  show ?thesis using a b
    by (simp add: on_userChoice_def deferredPrompt_foldl_resume)
qed

theorem appinstalled_keeps_handle_witness:
  "0 \<in> fst ` set (awaiting (run android_env (startup android_env True)
                             [BeforeInstallPrompt 0, ClickInstall 0])) \<and>
   map_of (resolved (run android_env (startup android_env True)
                       [BeforeInstallPrompt 0, ClickInstall 0])) 0 = None \<and>
   0 \<in> set (prompted (run android_env (startup android_env True)
                        [BeforeInstallPrompt 0, ClickInstall 0])) \<and>
   deferredPrompt
     (step android_env
        (run android_env (startup android_env True) [BeforeInstallPrompt 0, ClickInstall 0])
        (UserChoice 0 Dismissed)) = Null \<and>
   deferredPrompt
     (step android_env
        (run android_env (startup android_env True) [BeforeInstallPrompt 0, ClickInstall 0])
        AppInstalled) = Event 0"
proof -
  let ?s = "run android_env (startup android_env True) [BeforeInstallPrompt 0, ClickInstall 0]"
  have h1: "0 \<in> fst ` set (awaiting ?s)" by (simp add: clicked_android initial_def)
  have h2: "map_of (resolved ?s) 0 = None" by (simp add: clicked_android initial_def)
  have h3: "0 \<in> set (prompted ?s)" by (simp add: clicked_android initial_def)
  have h4: "deferredPrompt ?s = Event 0" by (simp add: clicked_android initial_def)
  from appinstalled_keeps_handle [of android_env ?s 0 Dismissed] h1 h2 h3 h4
  show ?thesis by simp
qed

text \<open>
  Claim C3 as it was stated fails: a signal with handle 0 and then \<^verbatim>\<open>appinstalled\<close>
  leave the handle 0 stored.
\<close>

theorem appinstalled_leaves_handle_stored:
  "deferredPrompt
     (run android_env (startup android_env True) [BeforeInstallPrompt 0, AppInstalled]) = Event 0"
  by code_simp

text \<open>
  Claim C8. In every reachable state the \<^verbatim>\<open>appinstalled\<close> listener leaves the document
  without an install button. Where there was none, the state stays as it was but for the
  line the listener logs; so it does when the signal comes a second time.
\<close>

theorem appinstalled_removes_button:
  assumes r: "reachable e s"
  shows "getInstallBtn (step e s AppInstalled) = None \<and>
         (getInstallBtn s = None \<longrightarrow>
            step e s AppInstalled = s\<lparr>console := console s @ [''PWA was installed'']\<rparr>) \<and>
         step e (step e s AppInstalled) AppInstalled =
           (step e s AppInstalled)
             \<lparr>console := console (step e s AppInstalled) @ [''PWA was installed'']\<rparr>"
proof -
  have i: "state_inv s" using r by (rule reachable_inv)
  have a: "getInstallBtn (on_appinstalled s) = None"
  proof (cases "container s")
    case None
    then show ?thesis by (simp add: on_appinstalled_def getInstallBtn_def)
  next
    case (Some bs)
    with i have len: "length bs \<le> 1" by (simp add: state_inv_def)
    show ?thesis
    proof (cases bs)
      case Nil
      with Some show ?thesis by (simp add: on_appinstalled_def getInstallBtn_def)
    next
      case (Cons b0 rest)
      with len have "rest = []" by simp
      with Some Cons show ?thesis
        by (simp add: on_appinstalled_def getInstallBtn_def remove_button_def)
    qed
  qed
  have b: "\<And>t. getInstallBtn t = None \<Longrightarrow>
             on_appinstalled t = t\<lparr>console := console t @ [''PWA was installed'']\<rparr>"
    by (simp add: on_appinstalled_def getInstallBtn_def split: option.splits list.splits)
  show ?thesis using a b [of s] b [OF a] by simp
qed

theorem appinstalled_removes_button_witness:
  "reachable android_env (run android_env (startup android_env True) [BeforeInstallPrompt 0]) \<and>
   getInstallBtn (run android_env (startup android_env True) [BeforeInstallPrompt 0]) =
     Some (new_button 0) \<and>
   getInstallBtn
     (step android_env (run android_env (startup android_env True) [BeforeInstallPrompt 0])
        AppInstalled) = None \<and>
   reachable android_env (startup android_env True) \<and>
   getInstallBtn (startup android_env True) = None \<and>
   step android_env (startup android_env True) AppInstalled =
     (startup android_env True)
       \<lparr>console := console (startup android_env True) @ [''PWA was installed'']\<rparr>"
proof -
  let ?s = "run android_env (startup android_env True) [BeforeInstallPrompt 0]"
  have h1: "reachable android_env (startup android_env True)" by (rule reachable_start)
  have h2: "getInstallBtn (startup android_env True) = None"
    by (simp add: startup_android initial_def getInstallBtn_def)
  have h3: "reachable android_env ?s"
    unfolding run_def foldl.simps by (rule reachable_step) (rule reachable_start)
  have h4: "getInstallBtn ?s = Some (new_button 0)"
    by (simp add: armed_android getInstallBtn_def)
  from appinstalled_removes_button [OF h1] appinstalled_removes_button [OF h3] h1 h2 h3 h4
  show ?thesis by blast
qed

section \<open>Button creation\<close>

lemma createInstallButton_twice:
  "createInstallButton (createInstallButton s) = createInstallButton s"
  by (simp add: createInstallButton_def getInstallBtn_def split: option.splits list.splits)

text \<open>
  Claim C4. A second call of \<open>createInstallButton\<close> right after the first changes
  nothing at all: no element, no timer and no listener is added. In a reachable state
  whose document has the container, the two calls leave exactly one install button in it.
\<close>

theorem createInstallButton_idempotent:
  "createInstallButton (createInstallButton s) = createInstallButton s \<and>
   (reachable e s \<and> container s \<noteq> None \<longrightarrow>
      (\<exists>b. container (createInstallButton (createInstallButton s)) = Some [b]))"
proof -
  have "\<exists>b. container (createInstallButton (createInstallButton s)) = Some [b]"
    if r: "reachable e s" and c: "container s \<noteq> None"
  proof -
    have i: "state_inv s" using r by (rule reachable_inv)
    from c obtain bs where bs: "container s = Some bs" by auto
    with i have len: "length bs \<le> 1" by (simp add: state_inv_def)
    show ?thesis
    proof (cases bs)
      case Nil
      with bs show ?thesis
        by (simp add: createInstallButton_def getInstallBtn_def)
    next
      case (Cons b0 rest)
      with len have "rest = []" by simp
      with bs Cons show ?thesis
        by (simp add: createInstallButton_def getInstallBtn_def)
    qed
  qed
  with createInstallButton_twice [of s] show ?thesis by blast
qed

theorem createInstallButton_idempotent_witness:
  "reachable android_env (startup android_env True) \<and>
   container (startup android_env True) \<noteq> None \<and>
   createInstallButton (createInstallButton (startup android_env True)) =
     createInstallButton (startup android_env True) \<and>
   (\<exists>b. container (createInstallButton (createInstallButton (startup android_env True))) =
          Some [b])"
proof -
  have h1: "reachable android_env (startup android_env True)" by (rule reachable_start)
  have h2: "container (startup android_env True) \<noteq> None"
    by (simp add: startup_android initial_def)
  from createInstallButton_idempotent [of "startup android_env True" android_env] h1 h2
  show ?thesis by blast
qed

section \<open>Platform classification\<close>

text \<open>
  Claim C6. With the platform string \<^verbatim>\<open>MacIntel\<close> and more than one touch point,
  \<open>detectAndShowInstructions\<close> classifies the device as iPadOS and not as macOS, though
  the platform string contains \<^verbatim>\<open>MAC\<close>: unless the standalone flag is set it shows the
  iPad dialog, and it never takes the Mac branch.
\<close>

theorem macintel_with_touch_is_ipados:
  "platform e = ''MacIntel'' \<Longrightarrow> maxTouchPoints e > 1 \<Longrightarrow>
     hasSubstring (toUpperCase (platform e)) ''MAC'' \<and>
     detect_isIpadOS e \<and> \<not> detect_isMac e \<and>
     detectAndShowInstructions e s =
       (if isInStandaloneMode e then s else showInstallInstructions ''iPad'' s)"
  using MacIntel_upper
  by (simp add: detect_isIpadOS_def detect_isMac_def detectAndShowInstructions_def)

theorem macintel_with_touch_is_ipados_witness:
  "platform ipad_env = ''MacIntel'' \<and> maxTouchPoints ipad_env > 1 \<and>
   detect_isIpadOS ipad_env \<and> \<not> detect_isMac ipad_env \<and>
   detectAndShowInstructions ipad_env (initial True) =
     showInstallInstructions ''iPad'' (initial True)"
proof -
  have h1: "platform ipad_env = ''MacIntel''" by (simp add: ipad_env_def)
  have h2: "maxTouchPoints ipad_env > 1" by (simp add: ipad_env_def)
  have h3: "\<not> isInStandaloneMode ipad_env"
    by (simp add: ipad_env_def isInStandaloneMode_def)
  from macintel_with_touch_is_ipados [OF h1 h2, of "initial True"] h1 h2 h3
  show ?thesis by simp
qed

text \<open>
  Claim C7. When the user agent, in whatever letter case, contains \<^verbatim>\<open>iphone\<close> and the
  device is not a \<^verbatim>\<open>MacIntel\<close> with more than one touch point,
  \<open>detectAndShowInstructions\<close> classifies it as iOS, not as iPadOS and not as macOS:
  unless the standalone flag is set it shows the iOS dialog.
\<close>

theorem iphone_agent_is_ios:
  "hasSubstring (toLowerCase (userAgent e)) ''iphone'' \<Longrightarrow>
   \<not> (platform e = ''MacIntel'' \<and> maxTouchPoints e > 1) \<Longrightarrow>
     detect_isIos e \<and> \<not> detect_isIpadOS e \<and> \<not> detect_isMac e \<and>
     detectAndShowInstructions e s =
       (if isInStandaloneMode e then s else showInstallInstructions ''iOS'' s)"
  by (auto simp add: detect_isIos_def test_iphone_ipad_ipod_def detect_isIpadOS_def
        detect_isMac_def detectAndShowInstructions_def)

theorem iphone_agent_is_ios_witness:
  "hasSubstring (toLowerCase (userAgent iphone_env)) ''iphone'' \<and>
   \<not> (platform iphone_env = ''MacIntel'' \<and> maxTouchPoints iphone_env > 1) \<and>
   detect_isIos iphone_env \<and> \<not> detect_isIpadOS iphone_env \<and> \<not> detect_isMac iphone_env \<and>
   detectAndShowInstructions iphone_env (initial True) =
     showInstallInstructions ''iOS'' (initial True)"
proof -
  have h2: "\<not> (platform iphone_env = ''MacIntel'' \<and> maxTouchPoints iphone_env > 1)"
    by (simp add: iphone_env_def)
  have h3: "\<not> isInStandaloneMode iphone_env"
    by (simp add: iphone_env_def isInStandaloneMode_def)
  from iphone_agent_is_ios [OF iphone_ua h2, of "initial True"] iphone_ua h2 h3
  show ?thesis by simp
qed

section \<open>Standalone display\<close>

lemma standalone_flag_suppresses_dialog:
  "standalone e = Some True \<Longrightarrow> detectAndShowInstructions e s = s"
  by (simp add: detectAndShowInstructions_def isInStandaloneMode_def)

text \<open>
  Claim C2 does not hold of the script. On a Mac whose display mode is standalone and whose
  browser has no \<^verbatim>\<open>navigator.standalone\<close>, the start of the script takes the app for
  standalone, yet \<open>detectAndShowInstructions\<close>, called directly or through a click on the
  install button while no handle is stored, shows the Mac dialog.
\<close>

theorem dialog_path_ignores_display_mode:
  "displayModeStandalone mac_app_env \<and> isStandalone mac_app_env \<and>
   map modal_title (body (detectAndShowInstructions mac_app_env (initial True))) =
     [''INSTALL ON MAC''] \<and>
   map modal_title (body (on_click mac_app_env 0 (createInstallButton (initial True)))) =
     [''INSTALL ON MAC'']"
  by code_simp

section \<open>The button shown at the start\<close>

lemma startup_classification:
  "(startup_isIos e \<or> startup_isMac e) =
     (detect_isIos e \<or> detect_isIpadOS e \<or> detect_isMac e)"
  by (auto simp: startup_isIos_def startup_isMac_def startup_isIpadOS_def detect_isIos_def
        detect_isIpadOS_def detect_isMac_def)

lemma timers_startup:
  "timers (startup e c) =
     (if \<not> isStandalone e \<and> (detect_isIos e \<or> detect_isIpadOS e \<or> detect_isMac e)
      then [(1000, CreateInstallButton)] else [])"
  unfolding startup_classification [symmetric]
  by (simp add: startup_def initial_def)

lemma container_startup: "container (startup e c) = (if c then Some [] else None)"
  by (simp add: startup_def initial_def)

text \<open>
  Claim C5. The start of the script creates no button itself. It schedules
  \<open>createInstallButton\<close>, 1000 ms later, exactly when the environment is not standalone
  and the platform is iOS, iPadOS or macOS; with the container in the document, the
  button is there once the timers of the start have fired exactly in that case. Where the
  standalone flag is \<open>true\<close> nothing is scheduled and no button appears, whatever the
  platform.
\<close>

theorem startup_proactive_button:
  "timers (startup e c) =
     (if \<not> isStandalone e \<and> (detect_isIos e \<or> detect_isIpadOS e \<or> detect_isMac e)
      then [(1000, CreateInstallButton)] else []) \<and>
   getInstallBtn (startup e c) = None \<and>
   (getInstallBtn (run e (startup e True) [TimerFires 0]) \<noteq> None) =
     (\<not> isStandalone e \<and> (detect_isIos e \<or> detect_isIpadOS e \<or> detect_isMac e)) \<and>
   (standalone e = Some True \<longrightarrow>
      timers (startup e c) = [] \<and> getInstallBtn (run e (startup e c) [TimerFires 0]) = None)"
proof -
  have a: "getInstallBtn (startup e c) = None"
    by (simp add: getInstallBtn_def container_startup)
  have b: "(getInstallBtn (run e (startup e True) [TimerFires 0]) \<noteq> None) =
           (\<not> isStandalone e \<and> (detect_isIos e \<or> detect_isIpadOS e \<or> detect_isMac e))"
    by (simp add: run_def on_timer_def timers_startup createInstallButton_def getInstallBtn_def
          container_startup)
  have c: "standalone e = Some True \<Longrightarrow> isStandalone e"
    by (simp add: isStandalone_def)
  have d: "standalone e = Some True \<Longrightarrow>
           getInstallBtn (run e (startup e c) [TimerFires 0]) = None"
    using c by (simp add: run_def on_timer_def timers_startup a)
  show ?thesis using timers_startup [of e c] a b c d by simp
qed

theorem startup_proactive_button_witness:
  "standalone iphone_app_env = Some True \<and> detect_isIos iphone_app_env \<and>
   timers (startup iphone_app_env True) = [] \<and>
   getInstallBtn (run iphone_app_env (startup iphone_app_env True) [TimerFires 0]) = None"
proof -
  have h: "standalone iphone_app_env = Some True"
    by (simp add: iphone_app_env_def)
  have i: "detect_isIos iphone_app_env" by code_simp
  from startup_proactive_button [of iphone_app_env True]
  have "standalone iphone_app_env = Some True \<longrightarrow>
          timers (startup iphone_app_env True) = [] \<and>
          getInstallBtn (run iphone_app_env (startup iphone_app_env True) [TimerFires 0]) = None"
    by blast
  with h i show ?thesis by blast
qed

section \<open>The instructions dialog\<close>

text \<open>
  Claim C9, as amended. Every call of \<open>showInstallInstructions\<close> appends one more dialog
  to the body; nothing keeps a second one from being there. A dialog that is shown while
  no other is in the document closes itself: a click on its close button sets its opacity
  to 0 and schedules its removal 300 ms later, and when that timer fires the dialog is
  gone.
\<close>

theorem dialog_per_call_closes_itself:
  "length (body (showInstallInstructions d s)) = Suc (length (body s)) \<and>
   (body s = [] \<longrightarrow>
      map modal_node (body (showInstallInstructions d s)) = [next_node s] \<and>
      map modal_node (body (step e (showInstallInstructions d s) (ClickClose (next_node s)))) =
        [next_node s] \<and>
      map modal_opacity (body (step e (showInstallInstructions d s) (ClickClose (next_node s)))) =
        [''0''] \<and>
      timers (step e (showInstallInstructions d s) (ClickClose (next_node s))) =
        timers s @ [(300, RemoveModal (next_node s))] \<and>
      body (run e (showInstallInstructions d s)
              [ClickClose (next_node s), TimerFires (length (timers s))]) = [])"
proof -
  have a: "length (body (showInstallInstructions d s)) = Suc (length (body s))"
    by (simp add: showInstallInstructions_def Let_def split: list.splits)
  have b: "body s = [] \<Longrightarrow>
      map modal_node (body (showInstallInstructions d s)) = [next_node s] \<and>
      map modal_node (body (step e (showInstallInstructions d s) (ClickClose (next_node s)))) =
        [next_node s] \<and>
      map modal_opacity (body (step e (showInstallInstructions d s) (ClickClose (next_node s)))) =
        [''0''] \<and>
      timers (step e (showInstallInstructions d s) (ClickClose (next_node s))) =
        timers s @ [(300, RemoveModal (next_node s))] \<and>
      body (run e (showInstallInstructions d s)
              [ClickClose (next_node s), TimerFires (length (timers s))]) = []"
    by (simp add: run_def showInstallInstructions_def Let_def on_closeClick_def closeListener_def
          on_timer_def remove_modal_def nth_append)
  show ?thesis using a b by blast
qed

theorem dialog_per_call_closes_itself_witness:
  "body (initial True) = [] \<and>
   map modal_node (body (showInstallInstructions ''iOS'' (initial True))) = [0] \<and>
   timers (step iphone_env (showInstallInstructions ''iOS'' (initial True)) (ClickClose 0)) =
     [(300, RemoveModal 0)] \<and>
   body (run iphone_env (showInstallInstructions ''iOS'' (initial True))
           [ClickClose 0, TimerFires 0]) = []"
proof -
  have h: "body (initial True) = []" by (simp add: initial_def)
  have n: "next_node (initial True) = 0" and t: "timers (initial True) = []"
    by (simp_all add: initial_def)
  from dialog_per_call_closes_itself [of "''iOS''" "initial True" iphone_env] h
  show ?thesis unfolding n t by simp
qed

text \<open>
  Claim C9 as it was stated fails. On an iPhone the button appears after the start, and
  two clicks on it put two dialogs, 1 and 2, into the document at once. Both close
  listeners are on the close button of dialog 1, and a click on the close button of
  dialog 2 changes nothing.
\<close>

theorem two_dialogs_at_once:
  "map modal_node (body (run iphone_env (startup iphone_env True)
      [TimerFires 0, ClickInstall 0, ClickInstall 0])) = [1, 2] \<and>
   map closeListeners (body (run iphone_env (startup iphone_env True)
      [TimerFires 0, ClickInstall 0, ClickInstall 0])) = [[1, 2], []] \<and>
   run iphone_env (startup iphone_env True)
      [TimerFires 0, ClickInstall 0, ClickInstall 0, ClickClose 2] =
   run iphone_env (startup iphone_env True)
      [TimerFires 0, ClickInstall 0, ClickInstall 0]"
  by code_simp

end
